theory Spec2Isabelle
  imports Complex_Main
begin

section \<open>Python strings\<close>

text \<open>
  The program is \<^verbatim>\<open>src/app.py\<close>. Python strings are modelled as \<^typ>\<open>string\<close>:
  one \<^typ>\<open>char\<close> per code point, for text within the first 256 code points. Bytes
  objects (image, audio and video payloads) are lists of \<^typ>\<open>char\<close> as well.
\<close>

definition newline :: char where
  "newline = CHR 0x0A"

definition isspace :: "char \<Rightarrow> bool" where
  \<comment> \<open>\<^verbatim>\<open>str.isspace\<close> on one character: tab, LF, VT, FF, CR, the separators
      0x1C to 0x1F, the space, NEL (0x85) and the no-break space (0xA0).\<close>
  "isspace c =
     (let n = (of_char c :: nat)
      in (9 \<le> n \<and> n \<le> 13) \<or> (28 \<le> n \<and> n \<le> 32) \<or> n = 133 \<or> n = 160)"

definition str_strip :: "string \<Rightarrow> string" where
  \<comment> \<open>\<^verbatim>\<open>s.strip()\<close>: leading and trailing whitespace removed.\<close>
  "str_strip s = rev (dropWhile isspace (rev (dropWhile isspace s)))"

fun str_split :: "char \<Rightarrow> string \<Rightarrow> string list" where
  \<comment> \<open>\<^verbatim>\<open>s.split(sep)\<close> for a separator of one character: every occurrence cuts,
      empty pieces are kept, and the empty string gives one empty piece.\<close>
  "str_split sep [] = [[]]"
| "str_split sep (c # cs) =
     (if c = sep then [] # str_split sep cs
      else (case str_split sep cs of
              [] \<Rightarrow> [[c]]
            | piece # pieces \<Rightarrow> (c # piece) # pieces))"

definition digit_char :: "nat \<Rightarrow> char" where
  "digit_char d = ''0123456789'' ! d"

fun str_nat :: "nat \<Rightarrow> string" where
  \<comment> \<open>\<^verbatim>\<open>str(i)\<close>, what \<^verbatim>\<open>f"{i}"\<close> renders for an index: decimal, no leading zero.\<close>
  "str_nat n = (if n < 10 then [digit_char n] else str_nat (n div 10) @ [digit_char (n mod 10)])"

declare str_nat.simps [simp del]

definition path_join :: "string \<Rightarrow> string \<Rightarrow> string" where
  \<comment> \<open>\<^verbatim>\<open>os.path.join(a, b)\<close> of \<^verbatim>\<open>posixpath\<close>: an absolute \<open>b\<close> replaces \<open>a\<close>;
      otherwise one slash separates them unless \<open>a\<close> is empty or ends with one.\<close>
  "path_join a b =
     (if b \<noteq> [] \<and> hd b = CHR ''/'' then b
      else if a = [] \<or> last a = CHR ''/'' then a @ b
      else a @ ''/'' @ b)"

section \<open>Scene segmentation\<close>

definition segment_scenes :: "string \<Rightarrow> string \<Rightarrow> string list" where
  \<comment> \<open>Lines 35 to 37 of \<^verbatim>\<open>generate_scene_images_and_audio\<close>: \<open>content\<close> is
      \<^verbatim>\<open>response.choices[0].message.content\<close>.\<close>
  "segment_scenes prompt_text content =
     (let scenes_text = str_split newline (str_strip content)
      in if length scenes_text < 3 then [prompt_text] else scenes_text)"


section \<open>Exceptions, the file system and the outside world\<close>

text \<open>
  An exception carries its message; the messages of the exceptions that Python and
  the libraries raise themselves are abridged.
\<close>

datatype exn =
    IndexError string
  | AttributeError string
  | ValueError string
  | TypeError string
  | OSError string
  | ServiceError string

fun exn_str :: "exn \<Rightarrow> string" where
  \<comment> \<open>\<^verbatim>\<open>str(e)\<close>, what \<^verbatim>\<open>f"Error: {e}"\<close> renders.\<close>
  "exn_str (IndexError m) = m"
| "exn_str (AttributeError m) = m"
| "exn_str (ValueError m) = m"
| "exn_str (TypeError m) = m"
| "exn_str (OSError m) = m"
| "exn_str (ServiceError m) = m"

datatype node = File string | Dir

text \<open>
  Every request that leaves the process is recorded, in order: the model name and the
  messages of a chat completion; model, prompt, size and count of an image generation;
  the URL of a plain fetch (\<open>None\<close> when the image entry carries no URL); text, voice
  and model of a speech generation.
\<close>

datatype request =
    ChatCompletion string "(string \<times> string) list"
  | ImageGeneration string string string nat
  | HttpGet "string option"
  | SpeechGeneration string "string option" string

datatype ui_event = Info string | Error string | Video string | Success string

record world =
  fs :: "string \<rightharpoonup> node"
  reqs :: "request list"
  ui :: "ui_event list"

section \<open>The composition library\<close>

text \<open>
  The video composition library is an external collaborator: its code is not in the
  repository, and the program uses it through the operations below. Its clip objects
  are records of the attributes the program reads (\<^verbatim>\<open>duration\<close>, \<^verbatim>\<open>audio\<close>, \<^verbatim>\<open>w\<close>)
  together with a description of what the clip shows or plays; a duration is a real
  number of seconds, \<open>None\<close> while it is not set. What the operations do is taken
  from section 4.3 of the specification, which states the library's contract:
  a still image shown for a duration, a caption over it, clips joined in order with
  hard cuts, a track attenuated and mixed with another. The one operation that is not
  taken from the specification is \<^verbatim>\<open>loop\<close> on an audio clip, which the library
  does not have.
\<close>

type_synonym seconds = real

datatype sound =
    SoundFile string
  | Gain real sound
  | Mix "(seconds \<times> seconds option \<times> sound) list"

record audio_clip =
  a_sound :: sound
  a_start :: seconds
  a_duration :: "seconds option"

datatype visual =
    Image string
  | Caption string nat string string string real
  | Positioned string string visual
  | Layers "(visual \<times> seconds option) list"
  | Cuts "(visual \<times> seconds option) list"

record video_clip =
  frames :: visual
  clip_w :: real
  duration :: "seconds option"
  audio :: "audio_clip option"

fun list_max :: "real list \<Rightarrow> real" where
  "list_max [] = 0"
| "list_max [x] = x"
| "list_max (x # y # ys) = max x (list_max (y # ys))"

definition ends_duration :: "seconds option list \<Rightarrow> seconds option" where
  \<comment> \<open>The duration of a composite: the latest end of its parts when every end is known.\<close>
  "ends_duration ends = map_option list_max (those ends)"

definition a_end :: "audio_clip \<Rightarrow> seconds option" where
  "a_end a = map_option (\<lambda>d. a_start a + d) (a_duration a)"

definition volumex :: "real \<Rightarrow> audio_clip \<Rightarrow> audio_clip" where
  \<comment> \<open>Modelled from the spec: the library's \<^verbatim>\<open>volumex\<close> is not in the repository.
      "The track is attenuated to 10% of its original volume": the sound times the factor.\<close>
  "volumex factor a = a\<lparr>a_sound := Gain factor (a_sound a)\<rparr>"

definition audio_clip_loop :: "seconds option \<Rightarrow> audio_clip \<Rightarrow> exn + audio_clip" where
  \<comment> \<open>\<^verbatim>\<open>clip.loop(duration=d)\<close> on an audio clip. The library the program imports
      (\<^verbatim>\<open>moviepy.editor\<close>, line 6) gives \<^verbatim>\<open>loop\<close> to video clips only; an audio
      clip has \<^verbatim>\<open>audio_loop\<close>, so looking \<^verbatim>\<open>loop\<close> up on it raises.\<close>
  "audio_clip_loop d a = Inl (AttributeError ''AudioFileClip object has no attribute loop'')"

definition audio_set_start :: "seconds \<Rightarrow> audio_clip \<Rightarrow> audio_clip" where
  "audio_set_start t a = a\<lparr>a_start := t\<rparr>"

definition audio_set_duration :: "seconds option \<Rightarrow> audio_clip \<Rightarrow> audio_clip" where
  "audio_set_duration d a = a\<lparr>a_duration := d\<rparr>"

definition mix_audio :: "audio_clip list \<Rightarrow> audio_clip" where
  \<comment> \<open>Modelled from the spec: the library's audio composite is not in the repository.
      "Mixed (not replacing)": all the clips play together, each from its own start.\<close>
  "mix_audio clips =
     \<lparr>a_sound = Mix (map (\<lambda>a. (a_start a, a_duration a, a_sound a)) clips),
      a_start = 0,
      a_duration = ends_duration (map a_end clips)\<rparr>"

definition CompositeAudioClip :: "audio_clip list \<Rightarrow> exn + audio_clip" where
  "CompositeAudioClip clips =
     (if clips = [] then Inl (ValueError ''max() arg is an empty sequence'')
      else Inr (mix_audio clips))"

definition set_duration :: "seconds option \<Rightarrow> video_clip \<Rightarrow> video_clip" where
  \<comment> \<open>Modelled from the spec: the library's \<^verbatim>\<open>set_duration\<close> is not in the repository.
      "Display the image as a static frame for exactly that duration": the duration of
      the clip, and of its audio when it has one.\<close>
  "set_duration d c = c\<lparr>duration := d, audio := map_option (audio_set_duration d) (audio c)\<rparr>"

definition set_position :: "string \<times> string \<Rightarrow> video_clip \<Rightarrow> video_clip" where
  "set_position pos c = c\<lparr>frames := Positioned (fst pos) (snd pos) (frames c)\<rparr>"

definition set_audio :: "audio_clip \<Rightarrow> video_clip \<Rightarrow> video_clip" where
  "set_audio a c = c\<lparr>audio := Some a\<rparr>"

definition present_audio :: "video_clip list \<Rightarrow> audio_clip list" where
  "present_audio clips = concat (map (\<lambda>c. case audio c of None \<Rightarrow> [] | Some a \<Rightarrow> [a]) clips)"

definition CompositeVideoClip :: "video_clip list \<Rightarrow> exn + video_clip" where
  \<comment> \<open>Modelled from the spec: the library's video composite is not in the repository.
      "Composite image + caption into one visual layer": the clips shown on top of each
      other, the first one below; the width is the first clip's; the audio mixes the
      audio of the clips that have one; an empty list raises.\<close>
  "CompositeVideoClip clips =
     (case clips of
        [] \<Rightarrow> Inl (IndexError ''list index out of range'')
      | c # _ \<Rightarrow>
          Inr \<lparr>frames = Layers (map (\<lambda>c. (frames c, duration c)) clips),
               clip_w = clip_w c,
               duration = ends_duration (map duration clips),
               audio = (if present_audio clips = [] then None
                        else Some (mix_audio (present_audio clips)))\<rparr>)"

fun starts_from :: "seconds \<Rightarrow> seconds list \<Rightarrow> seconds list" where
  \<comment> \<open>The running sums \<open>t\<close>, \<open>t + d\<^sub>0\<close>, \<open>t + d\<^sub>0 + d\<^sub>1\<close>, ...: one more than durations.\<close>
  "starts_from t [] = [t]"
| "starts_from t (d # ds) = t # starts_from (t + d) ds"

definition timed_audio :: "(video_clip \<times> seconds) list \<Rightarrow> audio_clip list" where
  "timed_audio cts =
     concat (map (\<lambda>(c, t). case audio c of None \<Rightarrow> [] | Some a \<Rightarrow> [audio_set_start t a]) cts)"

definition concatenate_videoclips :: "video_clip list \<Rightarrow> exn + video_clip" where
  \<comment> \<open>Modelled from the spec: the library's concatenation is not in the repository.
      "Sub-clips are joined in ascending order with no transition, hard cuts only":
      clip \<open>i\<close> starts at the sum of the durations before it, and so does its audio;
      the duration is the last running sum. A clip without duration and an empty list
      raise.\<close>
  "concatenate_videoclips clips =
     (case those (map duration clips) of
        None \<Rightarrow> Inl (TypeError ''unsupported operand type(s) for +'')
      | Some ds \<Rightarrow>
          if clips = [] then Inl (ValueError ''max() arg is an empty sequence'')
          else
            (let tt = starts_from 0 ds
             in Inr \<lparr>frames = Cuts (map (\<lambda>c. (frames c, duration c)) clips),
                     clip_w = list_max (map clip_w clips),
                     duration = Some (last tt),
                     audio = (if timed_audio (zip clips tt) = [] then None
                              else Some (mix_audio (timed_audio (zip clips tt))))\<rparr>))"

section \<open>The platform\<close>

text \<open>
  What the program cannot compute is a parameter: the answers of the three services
  and of the plain fetch (each may depend on the credential and on the requests made
  so far, and may be an error), whether the operating system lets a file be opened for
  writing, the name of a fresh scratch directory, and the media tools of the
  composition library (decoding an audio file to its duration and an image to its
  width and height, rendering a caption, encoding a clip).
\<close>

record platform =
  chat_completions_create :: "string option \<Rightarrow> request list \<Rightarrow> request \<Rightarrow> exn + string option list"
  images_generate :: "string option \<Rightarrow> request list \<Rightarrow> request \<Rightarrow> exn + string option list"
  requests_get :: "request list \<Rightarrow> string option \<Rightarrow> exn + string"
  generate :: "string option \<Rightarrow> request list \<Rightarrow> request \<Rightarrow> exn + string"
  open_wb :: "(string \<rightharpoonup> node) \<Rightarrow> string \<Rightarrow> exn option"
  mkdtemp :: "(string \<rightharpoonup> node) \<Rightarrow> exn + string"
  audio_decode :: "string \<Rightarrow> exn + seconds"
  image_decode :: "string \<Rightarrow> exn + nat \<times> nat"
  caption_render :: "string \<Rightarrow> real \<Rightarrow> exn + nat \<times> nat"
  video_encode :: "video_clip \<Rightarrow> nat \<Rightarrow> string \<Rightarrow> string \<Rightarrow> exn + string"

record globals =
  openai_api_key :: "string option"
  elevenlabs_api_key :: "string option"
  voice_id :: "string option"

definition log_request :: "request \<Rightarrow> world \<Rightarrow> world" where
  "log_request rq wd = wd\<lparr>reqs := reqs wd @ [rq]\<rparr>"

definition write_file :: "platform \<Rightarrow> string \<Rightarrow> string \<Rightarrow> world \<Rightarrow> (exn + unit) \<times> world" where
  \<comment> \<open>\<^verbatim>\<open>with open(path, "wb") as f: f.write(data)\<close>\<close>
  "write_file plat path data wd =
     (case open_wb plat (fs wd) path of
        Some e \<Rightarrow> (Inl e, wd)
      | None \<Rightarrow> (Inr (), wd\<lparr>fs := (fs wd)(path \<mapsto> File data)\<rparr>))"

definition read_file :: "(string \<rightharpoonup> node) \<Rightarrow> string \<Rightarrow> exn + string" where
  "read_file files path =
     (case files path of
        None \<Rightarrow> Inl (OSError ''No such file or directory'')
      | Some Dir \<Rightarrow> Inl (OSError ''Is a directory'')
      | Some (File data) \<Rightarrow> Inr data)"

section \<open>Scene assets\<close>

definition scene_assets ::
  "platform \<Rightarrow> globals \<Rightarrow> string \<Rightarrow> nat \<Rightarrow> string \<Rightarrow> world \<Rightarrow> (exn + string \<times> string) \<times> world" where
  \<comment> \<open>One pass of the loop of lines 43 to 69, for scene \<open>i\<close>: the image path and the
      audio path it appends.\<close>
  "scene_assets plat g temp_dir i scene_text wd =
     (let rq_img = ImageGeneration ''dall-e-3'' scene_text ''512x512'' 1;
          wd1 = log_request rq_img wd
      in case images_generate plat (openai_api_key g) (reqs wd) rq_img of
           Inl e \<Rightarrow> (Inl e, wd1)
         | Inr [] \<Rightarrow> (Inl (IndexError ''list index out of range''), wd1)
         | Inr (img_url # _) \<Rightarrow>
             (let wd2 = log_request (HttpGet img_url) wd1
              in case requests_get plat (reqs wd1) img_url of
                   Inl e \<Rightarrow> (Inl e, wd2)
                 | Inr img_data \<Rightarrow>
                     (let img_path = path_join temp_dir (''scene_'' @ str_nat i @ ''.png'')
                      in case write_file plat img_path img_data wd2 of
                           (Inl e, wd3) \<Rightarrow> (Inl e, wd3)
                         | (Inr _, wd3) \<Rightarrow>
                             (let rq_tts = SpeechGeneration scene_text (voice_id g)
                                             ''eleven_multilingual_v1'';
                                  wd4 = log_request rq_tts wd3
                              in case generate plat (elevenlabs_api_key g) (reqs wd3) rq_tts of
                                   Inl e \<Rightarrow> (Inl e, wd4)
                                 | Inr audio_data \<Rightarrow>
                                     (let audio_path =
                                            path_join temp_dir (''scene_'' @ str_nat i @ ''.mp3'')
                                      in case write_file plat audio_path audio_data wd4 of
                                           (Inl e, wd5) \<Rightarrow> (Inl e, wd5)
                                         | (Inr _, wd5) \<Rightarrow>
                                             (Inr (img_path, audio_path), wd5))))))"

fun scenes_loop ::
  "platform \<Rightarrow> globals \<Rightarrow> string \<Rightarrow> nat \<Rightarrow> string list \<Rightarrow>
   string list \<times> string list \<times> string list \<Rightarrow> world \<Rightarrow>
   (exn + string list \<times> string list \<times> string list) \<times> world" where
  \<comment> \<open>\<^verbatim>\<open>for i, scene_text in enumerate(scenes_text)\<close>, from index \<open>i\<close> on, with the
      three lists built so far.\<close>
  "scenes_loop plat g temp_dir i [] acc wd = (Inr acc, wd)"
| "scenes_loop plat g temp_dir i (scene_text # rest) (image_files, audio_files, subtitles) wd =
     (case scene_assets plat g temp_dir i scene_text wd of
        (Inl e, wd') \<Rightarrow> (Inl e, wd')
      | (Inr (img_path, audio_path), wd') \<Rightarrow>
          scenes_loop plat g temp_dir (Suc i) rest
            (image_files @ [img_path], audio_files @ [audio_path], subtitles @ [scene_text]) wd')"

definition generate_assets ::
  "platform \<Rightarrow> globals \<Rightarrow> string \<Rightarrow> string list \<Rightarrow> world \<Rightarrow>
   (exn + string list \<times> string list \<times> string list) \<times> world" where
  \<comment> \<open>Lines 39 to 70: the three empty lists, the loop, the returned triple.\<close>
  "generate_assets plat g temp_dir scenes_text wd =
     scenes_loop plat g temp_dir 0 scenes_text ([], [], []) wd"

definition chat_request :: "string \<Rightarrow> request" where
  "chat_request prompt_text =
     ChatCompletion ''gpt-4o-mini''
       [(''system'', ''Break the following text into 3 short scenes for a video.''),
        (''user'', prompt_text)]"

definition generate_scene_images_and_audio ::
  "platform \<Rightarrow> globals \<Rightarrow> string \<Rightarrow> string \<Rightarrow> world \<Rightarrow>
   (exn + string list \<times> string list \<times> string list) \<times> world" where
  "generate_scene_images_and_audio plat g prompt_text temp_dir wd =
     (let wd1 = log_request (chat_request prompt_text) wd
      in case chat_completions_create plat (openai_api_key g) (reqs wd) (chat_request prompt_text) of
           Inl e \<Rightarrow> (Inl e, wd1)
         | Inr [] \<Rightarrow> (Inl (IndexError ''list index out of range''), wd1)
         | Inr (None # _) \<Rightarrow>
             (Inl (AttributeError (''NoneType object has no attribute strip'')), wd1)
         | Inr (Some content # _) \<Rightarrow>
             generate_assets plat g temp_dir (segment_scenes prompt_text content) wd1)"


section \<open>Video assembly\<close>

definition AudioFileClip :: "platform \<Rightarrow> (string \<rightharpoonup> node) \<Rightarrow> string \<Rightarrow> exn + audio_clip" where
  \<comment> \<open>The audio file at the path, with the duration its decoder reports.\<close>
  "AudioFileClip plat files path =
     (case read_file files path of
        Inl e \<Rightarrow> Inl e
      | Inr data \<Rightarrow>
          (case audio_decode plat data of
             Inl e \<Rightarrow> Inl e
           | Inr d \<Rightarrow> Inr \<lparr>a_sound = SoundFile path, a_start = 0, a_duration = Some d\<rparr>))"

definition ImageClip :: "platform \<Rightarrow> (string \<rightharpoonup> node) \<Rightarrow> string \<Rightarrow> exn + video_clip" where
  \<comment> \<open>The image file at the path as a still picture: no duration yet, no audio.\<close>
  "ImageClip plat files path =
     (case read_file files path of
        Inl e \<Rightarrow> Inl e
      | Inr data \<Rightarrow>
          (case image_decode plat data of
             Inl e \<Rightarrow> Inl e
           | Inr (iw, ih) \<Rightarrow>
               Inr \<lparr>frames = Image path, clip_w = real iw, duration = None, audio = None\<rparr>))"

definition TextClip ::
  "platform \<Rightarrow> string \<Rightarrow> nat \<Rightarrow> string \<Rightarrow> string \<Rightarrow> string \<Rightarrow> real \<Rightarrow> exn + video_clip" where
  \<comment> \<open>The text rendered as a picture of the given width (the height is free).\<close>
  "TextClip plat txt fontsize color bg_color method width =
     (case caption_render plat txt width of
        Inl e \<Rightarrow> Inl e
      | Inr (tw, th) \<Rightarrow>
          Inr \<lparr>frames = Caption txt fontsize color bg_color method width,
               clip_w = real tw, duration = None, audio = None\<rparr>)"

definition scene_clip ::
  "platform \<Rightarrow> (string \<rightharpoonup> node) \<Rightarrow> string \<Rightarrow> string \<Rightarrow> string \<Rightarrow> exn + video_clip" where
  \<comment> \<open>One pass of the loop of lines 74 to 84: the clip it appends.\<close>
  "scene_clip plat files img audio_path subtitle =
     (case AudioFileClip plat files audio_path of
        Inl e \<Rightarrow> Inl e
      | Inr audio_clip \<Rightarrow>
          (case ImageClip plat files img of
             Inl e \<Rightarrow> Inl e
           | Inr img_clip0 \<Rightarrow>
               (let img_clip = set_duration (a_duration audio_clip) img_clip0
                in case TextClip plat subtitle 24 ''white'' ''black'' ''caption''
                          (clip_w img_clip * (9 / 10)) of
                     Inl e \<Rightarrow> Inl e
                   | Inr subtitle_clip0 \<Rightarrow>
                       (let subtitle_clip =
                              set_duration (a_duration audio_clip)
                                (set_position (''center'', ''bottom'') subtitle_clip0)
                        in case CompositeVideoClip [img_clip, subtitle_clip] of
                             Inl e \<Rightarrow> Inl e
                           | Inr video_clip \<Rightarrow> Inr (set_audio audio_clip video_clip)))))"

fun clips_loop ::
  "platform \<Rightarrow> (string \<rightharpoonup> node) \<Rightarrow> (string \<times> string \<times> string) list \<Rightarrow> video_clip list \<Rightarrow>
   exn + video_clip list" where
  \<comment> \<open>\<^verbatim>\<open>for img, audio, subtitle in zip(...)\<close>, with the clips built so far.\<close>
  "clips_loop plat files [] clips = Inr clips"
| "clips_loop plat files ((img, audio_path, subtitle) # rest) clips =
     (case scene_clip plat files img audio_path subtitle of
        Inl e \<Rightarrow> Inl e
      | Inr video_clip \<Rightarrow> clips_loop plat files rest (clips @ [video_clip]))"

definition path_exists :: "(string \<rightharpoonup> node) \<Rightarrow> string \<Rightarrow> bool" where
  "path_exists files path = (files path \<noteq> None)"

definition add_music ::
  "platform \<Rightarrow> (string \<rightharpoonup> node) \<Rightarrow> string option \<Rightarrow> video_clip \<Rightarrow> exn + video_clip" where
  \<comment> \<open>Lines 89 to 92. \<^verbatim>\<open>if music_path and ...\<close> is false for \<open>None\<close> and for the
      empty string; the factor 0.1 is the real number one tenth.\<close>
  "add_music plat files music_path final_clip =
     (case music_path of
        None \<Rightarrow> Inr final_clip
      | Some path \<Rightarrow>
          if path \<noteq> [] \<and> path_exists files path then
            (case AudioFileClip plat files path of
               Inl e \<Rightarrow> Inl e
             | Inr music0 \<Rightarrow>
                 (case audio_clip_loop (duration final_clip) (volumex (1 / 10) music0) of
                    Inl e \<Rightarrow> Inl e
                  | Inr music_clip \<Rightarrow>
                      (case audio final_clip of
                         None \<Rightarrow> Inl (AttributeError ''NoneType object has no attribute end'')
                       | Some narration \<Rightarrow>
                           (case CompositeAudioClip [narration, music_clip] of
                              Inl e \<Rightarrow> Inl e
                            | Inr final_audio \<Rightarrow> Inr (set_audio final_audio final_clip)))))
          else Inr final_clip)"

definition write_videofile ::
  "platform \<Rightarrow> video_clip \<Rightarrow> string \<Rightarrow> nat \<Rightarrow> string \<Rightarrow> string \<Rightarrow> world \<Rightarrow> (exn + unit) \<times> world" where
  "write_videofile plat clip path fps codec audio_codec wd =
     (case open_wb plat (fs wd) path of
        Some e \<Rightarrow> (Inl e, wd)
      | None \<Rightarrow>
          (case video_encode plat clip fps codec audio_codec of
             Inl e \<Rightarrow> (Inl e, wd)
           | Inr data \<Rightarrow> (Inr (), wd\<lparr>fs := (fs wd)(path \<mapsto> File data)\<rparr>)))"

definition final_clip_of ::
  "platform \<Rightarrow> (string \<rightharpoonup> node) \<Rightarrow> string list \<Rightarrow> string list \<Rightarrow> string list \<Rightarrow>
   string option \<Rightarrow> exn + video_clip" where
  \<comment> \<open>Lines 73 to 92 of \<^verbatim>\<open>create_video\<close>: the clip that is then written.\<close>
  "final_clip_of plat files image_files audio_files subtitles music_path =
     (case clips_loop plat files (zip image_files (zip audio_files subtitles)) [] of
        Inl e \<Rightarrow> Inl e
      | Inr clips \<Rightarrow>
          (case concatenate_videoclips clips of
             Inl e \<Rightarrow> Inl e
           | Inr final_clip \<Rightarrow> add_music plat files music_path final_clip))"

definition create_video ::
  "platform \<Rightarrow> string list \<Rightarrow> string list \<Rightarrow> string list \<Rightarrow> string \<Rightarrow> string option \<Rightarrow>
   world \<Rightarrow> (exn + unit) \<times> world" where
  "create_video plat image_files audio_files subtitles output_path music_path wd =
     (case final_clip_of plat (fs wd) image_files audio_files subtitles music_path of
        Inl e \<Rightarrow> (Inl e, wd)
      | Inr final_clip \<Rightarrow> write_videofile plat final_clip output_path 24 ''libx264'' ''aac'' wd)"

section \<open>The script\<close>

record inputs =
  text_input :: string
  music_upload :: "string option"
  button :: bool

definition st_info :: "string \<Rightarrow> world \<Rightarrow> world" where
  "st_info msg wd = wd\<lparr>ui := ui wd @ [Info msg]\<rparr>"

definition st_error :: "string \<Rightarrow> world \<Rightarrow> world" where
  "st_error msg wd = wd\<lparr>ui := ui wd @ [Error msg]\<rparr>"

definition st_success :: "string \<Rightarrow> world \<Rightarrow> world" where
  "st_success msg wd = wd\<lparr>ui := ui wd @ [Success msg]\<rparr>"

definition st_video :: "string \<Rightarrow> world \<Rightarrow> (exn + unit) \<times> world" where
  \<comment> \<open>The file's bytes are handed to the page when the element is made.\<close>
  "st_video path wd =
     (case read_file (fs wd) path of
        Inl e \<Rightarrow> (Inl e, wd)
      | Inr data \<Rightarrow> (Inr (), wd\<lparr>ui := ui wd @ [Video data]\<rparr>))"

definition save_music :: "platform \<Rightarrow> inputs \<Rightarrow> string \<Rightarrow> world \<Rightarrow> (exn + string option) \<times> world" where
  \<comment> \<open>Lines 110 to 114: the music path, after the upload is written to it.\<close>
  "save_music plat inp temp_dir wd =
     (case music_upload inp of
        None \<Rightarrow> (Inr None, wd)
      | Some data \<Rightarrow>
          (let music_path = path_join temp_dir ''background_music.mp3''
           in case write_file plat music_path data wd of
                (Inl e, wd') \<Rightarrow> (Inl e, wd')
              | (Inr _, wd') \<Rightarrow> (Inr (Some music_path), wd')))"

definition try_body :: "platform \<Rightarrow> globals \<Rightarrow> inputs \<Rightarrow> string \<Rightarrow> world \<Rightarrow> (exn + unit) \<times> world" where
  \<comment> \<open>Lines 108 to 122, the body of the \<^verbatim>\<open>try\<close>.\<close>
  "try_body plat g inp temp_dir wd =
     (case generate_scene_images_and_audio plat g (text_input inp) temp_dir wd of
        (Inl e, wd1) \<Rightarrow> (Inl e, wd1)
      | (Inr (image_files, audio_files, subtitles), wd1) \<Rightarrow>
          (case save_music plat inp temp_dir wd1 of
             (Inl e, wd2) \<Rightarrow> (Inl e, wd2)
           | (Inr music_path, wd2) \<Rightarrow>
               (let output_video_path = path_join temp_dir ''output_video.mp4'';
                    wd3 = st_info ''Creating video...'' wd2
                in case create_video plat image_files audio_files subtitles
                          output_video_path music_path wd3 of
                     (Inl e, wd4) \<Rightarrow> (Inl e, wd4)
                   | (Inr _, wd4) \<Rightarrow>
                       (case st_video output_video_path wd4 of
                          (Inl e, wd5) \<Rightarrow> (Inl e, wd5)
                        | (Inr _, wd5) \<Rightarrow>
                            (Inr (), st_success ''Video generated successfully!'' wd5)))))"

definition try_except :: "platform \<Rightarrow> globals \<Rightarrow> inputs \<Rightarrow> string \<Rightarrow> world \<Rightarrow> world" where
  \<comment> \<open>Lines 107 to 125: \<^verbatim>\<open>except Exception as e: st.error(f"Error: {e}")\<close>.\<close>
  "try_except plat g inp temp_dir wd =
     (case try_body plat g inp temp_dir wd of
        (Inl e, wd') \<Rightarrow> st_error (''Error: '' @ exn_str e) wd'
      | (Inr _, wd') \<Rightarrow> wd')"

definition rmtree :: "string \<Rightarrow> (string \<rightharpoonup> node) \<Rightarrow> (string \<rightharpoonup> node)" where
  \<comment> \<open>Leaving the \<^verbatim>\<open>with\<close> block removes the scratch directory and all below it.\<close>
  "rmtree dir files =
     (\<lambda>path. if path = dir \<or> take (length dir + 1) path = dir @ ''/'' then None else files path)"

definition run_block :: "platform \<Rightarrow> globals \<Rightarrow> inputs \<Rightarrow> world \<Rightarrow> exn option \<times> world" where
  \<comment> \<open>Lines 105 to 125. An error of making the scratch directory is outside the
      \<^verbatim>\<open>try\<close> and leaves the script uncaught.\<close>
  "run_block plat g inp wd =
     (case mkdtemp plat (fs wd) of
        Inl e \<Rightarrow> (Some e, wd)
      | Inr temp_dir \<Rightarrow>
          (let wd1 = wd\<lparr>fs := (fs wd)(temp_dir \<mapsto> Dir)\<rparr>;
               wd2 = st_info ''Generating scenes, images, and audio...'' wd1;
               wd3 = try_except plat g inp temp_dir wd2
           in (None, wd3\<lparr>fs := rmtree temp_dir (fs wd3)\<rparr>)))"

definition falsy :: "string option \<Rightarrow> bool" where
  \<comment> \<open>\<^verbatim>\<open>not v\<close> for a secret: absent (\<open>None\<close>) or the empty string.\<close>
  "falsy v = (case v of None \<Rightarrow> True | Some s \<Rightarrow> s = [])"

definition script :: "platform \<Rightarrow> (string \<rightharpoonup> string) \<Rightarrow> inputs \<Rightarrow> world \<Rightarrow> exn option \<times> world" where
  \<comment> \<open>One execution of the script, top to bottom. The page configuration, the title
      and the input widgets leave no status element; the widgets' values are \<open>inp\<close>.\<close>
  "script plat secrets inp wd =
     (let g = \<lparr>openai_api_key = secrets ''OPENAI_API_KEY'',
               elevenlabs_api_key = secrets ''ELEVENLABS_API_KEY'',
               voice_id = secrets ''VOICE_ID''\<rparr>
      in if falsy (openai_api_key g) \<or> falsy (elevenlabs_api_key g) \<or> falsy (voice_id g)
         then (None, st_error
                 ''Please add OPENAI_API_KEY, ELEVENLABS_API_KEY, and VOICE_ID to your Streamlit secrets.''
                 wd)
         else if button inp \<and> str_strip (text_input inp) \<noteq> []
         then run_block plat g inp wd
         else (None, wd))"


section \<open>The assembled clip, spelled out\<close>

text \<open>
  The values the assembly is compared with: the picture of one scene (the image
  below, the caption at the bottom centre, both for the duration \<open>d\<close>), a narration
  file playing from \<open>t\<close> for \<open>d\<close>, the clip of one scene, the narrations one after
  another, and the clip of all scenes without music.
\<close>

definition scene_frames :: "string \<Rightarrow> string \<Rightarrow> real \<Rightarrow> seconds \<Rightarrow> visual" where
  "scene_frames img subtitle iw d =
     Layers [(Image img, Some d),
             (Positioned ''center'' ''bottom''
                (Caption subtitle 24 ''white'' ''black'' ''caption'' (iw * (9 / 10))), Some d)]"

definition narration :: "string \<Rightarrow> seconds \<Rightarrow> seconds \<Rightarrow> audio_clip" where
  "narration audio_path t d = \<lparr>a_sound = SoundFile audio_path, a_start = t, a_duration = Some d\<rparr>"

definition scene_value :: "string \<Rightarrow> string \<Rightarrow> string \<Rightarrow> real \<Rightarrow> seconds \<Rightarrow> video_clip" where
  "scene_value img audio_path subtitle iw d =
     \<lparr>frames = scene_frames img subtitle iw d, clip_w = iw, duration = Some d,
      audio = Some (narration audio_path 0 d)\<rparr>"

fun back_to_back :: "seconds \<Rightarrow> (string \<times> seconds) list \<Rightarrow> audio_clip list" where
  "back_to_back t [] = []"
| "back_to_back t ((audio_path, d) # rest) = narration audio_path t d # back_to_back (t + d) rest"

definition narrated_video ::
  "string list \<Rightarrow> string list \<Rightarrow> string list \<Rightarrow> nat list \<Rightarrow> seconds list \<Rightarrow> video_clip" where
  "narrated_video image_files audio_files subtitles iws ds =
     \<lparr>frames = Cuts (map (\<lambda>i. (scene_frames (image_files ! i) (subtitles ! i) (real (iws ! i)) (ds ! i),
                              Some (ds ! i))) [0..<length ds]),
      clip_w = list_max (map real iws),
      duration = Some (sum_list ds),
      audio = Some (mix_audio (back_to_back 0 (zip audio_files ds)))\<rparr>"

section \<open>An example platform\<close>

text \<open>
  A platform on which every call succeeds, used to run the definitions on concrete
  inputs: the completion service answers with two scenes separated by a blank line.
\<close>

definition demo_platform :: platform where
  "demo_platform =
     \<lparr>chat_completions_create = (\<lambda>key history rq. Inr [Some ''a\<newline>\<newline>b'']),
      images_generate = (\<lambda>key history rq. Inr [Some ''https://img.example/1'']),
      requests_get = (\<lambda>history url. Inr ''PNG''),
      generate = (\<lambda>key history rq. Inr ''MP3''),
      open_wb = (\<lambda>files path. None),
      mkdtemp = (\<lambda>files. Inr ''/tmp/run''),
      audio_decode = (\<lambda>data. Inr 2),
      image_decode = (\<lambda>data. Inr (512, 512)),
      caption_render = (\<lambda>txt width. Inr (460, 40)),
      video_encode = (\<lambda>clip fps codec audio_codec. Inr ''MP4'')\<rparr>"

definition one_line_platform :: platform where
  \<comment> \<open>The completion service answers with a single line.\<close>
  "one_line_platform =
     demo_platform\<lparr>chat_completions_create := (\<lambda>key history rq. Inr [Some ''A dog finds a key.''])\<rparr>"



definition no_voice_secrets :: "string \<rightharpoonup> string" where
  \<comment> \<open>Secrets without the voice identity.\<close>
  "no_voice_secrets = [''OPENAI_API_KEY'' \<mapsto> ''sk-1'', ''ELEVENLABS_API_KEY'' \<mapsto> ''el-1'']"

definition demo_secrets :: "string \<rightharpoonup> string" where
  "demo_secrets =
     [''OPENAI_API_KEY'' \<mapsto> ''sk-1'', ''ELEVENLABS_API_KEY'' \<mapsto> ''el-1'', ''VOICE_ID'' \<mapsto> ''v1'']"

definition no_globals :: globals where
  \<comment> \<open>Globals that hold no credential at all.\<close>
  "no_globals = \<lparr>openai_api_key = None, elevenlabs_api_key = None, voice_id = None\<rparr>"









definition null_content_platform :: platform where
  \<comment> \<open>The completion succeeds with one choice whose content is null.\<close>
  "null_content_platform =
     demo_platform\<lparr>chat_completions_create := (\<lambda>key history rq. Inr [None])\<rparr>"

definition no_choice_platform :: platform where
  \<comment> \<open>The completion succeeds with no choice.\<close>
  "no_choice_platform =
     demo_platform\<lparr>chat_completions_create := (\<lambda>key history rq. Inr [])\<rparr>"

definition demo_globals :: globals where
  "demo_globals =
     \<lparr>openai_api_key = Some ''sk-1'', elevenlabs_api_key = Some ''el-1'', voice_id = Some ''v1''\<rparr>"

definition empty_world :: world where
  "empty_world = \<lparr>fs = Map.empty, reqs = [], ui = []\<rparr>"

definition demo_world :: world where
  \<comment> \<open>The assets of two scenes on disk, and no music file.\<close>
  "demo_world =
     \<lparr>fs = [''/tmp/run'' \<mapsto> Dir,
             ''/tmp/run/scene_0.png'' \<mapsto> File ''PNG'', ''/tmp/run/scene_0.mp3'' \<mapsto> File ''MP3'',
             ''/tmp/run/scene_1.png'' \<mapsto> File ''PNG'', ''/tmp/run/scene_1.mp3'' \<mapsto> File ''MP3''],
      reqs = [], ui = []\<rparr>"

definition music_world :: world where
  \<comment> \<open>The example world with an uploaded music file.\<close>
  "music_world =
     demo_world\<lparr>fs := (fs demo_world)(''/tmp/run/background_music.mp3'' \<mapsto> File ''MUSIC'')\<rparr>"

definition music_inputs :: inputs where
  \<comment> \<open>The example inputs with an uploaded music file.\<close>
  "music_inputs = \<lparr>text_input = ''Story.'', music_upload = Some ''MUSIC'', button = True\<rparr>"

definition demo_inputs :: inputs where
  "demo_inputs = \<lparr>text_input = ''Story.'', music_upload = None, button = True\<rparr>"

section \<open>Properties of the segmentation\<close>

lemma str_split_not_Nil: "str_split sep s \<noteq> []"
  by (induction s) (auto split: list.splits)

lemma length_str_split: "length (str_split sep s) = Suc (count_list s sep)"
  by (induction s) (auto split: list.splits simp: str_split_not_Nil)

text \<open>
  C1, as stated: whenever the split of the response yields fewer than three non-empty
  lines, the segmentation falls back to the story text. The guard of line 36 counts
  all the lines of the stripped response, blank ones too: the response \<open>a\<close>, blank
  line, \<open>b\<close> has two non-empty lines, is three lines long, and is returned as three
  captions, the second one empty.
\<close>

theorem segment_blank_lines_counterexample:
  "length (filter (\<lambda>l. l \<noteq> []) (str_split newline (str_strip ''a\<newline>\<newline>b''))) < 3
   \<and> segment_scenes ''A dog finds a key.'' ''a\<newline>\<newline>b'' = [''a'', [], ''b'']
   \<and> segment_scenes ''A dog finds a key.'' ''a\<newline>\<newline>b'' \<noteq> [''A dog finds a key.'']"
  by (simp add: segment_scenes_def str_strip_def isspace_def newline_def Let_def)

text \<open>
  C1, amended: whenever the stripped response splits into fewer than three lines,
  blank lines counted (it holds fewer than two line feeds), the segmentation is
  exactly the story text as the one caption, and the function goes on to generate the
  assets of that one scene: the segmentation itself has no failing branch. Whenever it
  splits into three lines or more, the segmentation is those lines, one caption per
  line in order, blank lines kept.
\<close>

theorem segment_fallback:
  "(length (str_split newline (str_strip content)) < 3 \<longrightarrow>
      segment_scenes prompt_text content = [prompt_text] \<and>
      (chat_completions_create plat (openai_api_key g) (reqs wd) (chat_request prompt_text)
         = Inr (Some content # others) \<longrightarrow>
       generate_scene_images_and_audio plat g prompt_text temp_dir wd
         = generate_assets plat g temp_dir [prompt_text]
             (log_request (chat_request prompt_text) wd)))
   \<and>
   (3 \<le> length (str_split newline (str_strip content)) \<longrightarrow>
      segment_scenes prompt_text content = str_split newline (str_strip content))"
  by (simp add: segment_scenes_def generate_scene_images_and_audio_def Let_def)

theorem segment_fallback_witness:
  "length (str_split newline (str_strip ''A dog finds a key.'')) < 3 \<and>
   segment_scenes ''Story.'' ''A dog finds a key.'' = [''Story.''] \<and>
   generate_scene_images_and_audio one_line_platform demo_globals ''Story.'' ''/tmp/run'' empty_world
     = generate_assets one_line_platform demo_globals ''/tmp/run'' [''Story.'']
         (log_request (chat_request ''Story.'') empty_world) \<and>
   3 \<le> length (str_split newline (str_strip ''a\<newline>\<newline>b'')) \<and>
   segment_scenes ''Story.'' ''a\<newline>\<newline>b'' = [''a'', [], ''b'']"
proof -
  have short: "length (str_split newline (str_strip ''A dog finds a key.'')) < 3"
    by (simp add: str_strip_def isspace_def newline_def)
  have chat: "chat_completions_create one_line_platform (openai_api_key demo_globals)
                (reqs empty_world) (chat_request ''Story.'') = Inr (Some ''A dog finds a key.'' # [])"
    by (simp add: one_line_platform_def demo_platform_def)
  have long: "3 \<le> length (str_split newline (str_strip ''a\<newline>\<newline>b''))"
    by (simp add: str_strip_def isspace_def newline_def)
  have split: "str_split newline (str_strip ''a\<newline>\<newline>b'') = [''a'', [], ''b'']"
    by (simp add: str_strip_def isspace_def newline_def)
  note one = segment_fallback [THEN conjunct1, THEN mp, OF short]
  from one [THEN conjunct1] one [THEN conjunct2, THEN mp, OF chat]
    segment_fallback [THEN conjunct2, THEN mp, OF long] short long split
  show ?thesis by simp
qed

section \<open>Properties of the asset generation\<close>

lemma scene_assets_paths:
  "scene_assets plat g temp_dir i scene_text wd = (Inr (a, b), wd') \<Longrightarrow>
   a = path_join temp_dir (''scene_'' @ str_nat i @ ''.png'') \<and>
   b = path_join temp_dir (''scene_'' @ str_nat i @ ''.mp3'')"
  by (auto simp: scene_assets_def Let_def split: sum.splits list.splits prod.splits)

lemma scenes_loop_result:
  "scenes_loop plat g temp_dir i scenes (imgs, auds, subs) wd = (Inr (imgs', auds', subs'), wd') \<Longrightarrow>
   imgs' = imgs @ map (\<lambda>k. path_join temp_dir (''scene_'' @ str_nat k @ ''.png''))
                      [i..<i + length scenes] \<and>
   auds' = auds @ map (\<lambda>k. path_join temp_dir (''scene_'' @ str_nat k @ ''.mp3''))
                      [i..<i + length scenes] \<and>
   subs' = subs @ scenes"
proof (induction scenes arbitrary: i imgs auds subs wd)
  case Nil
  then show ?case by simp
next
  case (Cons s rest)
  from Cons.prems obtain a b wd1 where
    step: "scene_assets plat g temp_dir i s wd = (Inr (a, b), wd1)" and
    rest: "scenes_loop plat g temp_dir (Suc i) rest (imgs @ [a], auds @ [b], subs @ [s]) wd1
             = (Inr (imgs', auds', subs'), wd')"
    by (auto split: prod.splits sum.splits)
  have upt: "[i..<i + length (s # rest)] = i # [Suc i..<Suc i + length rest]"
    by (simp add: upt_conv_Cons del: upt_Suc)
  from scene_assets_paths [OF step] Cons.IH [OF rest] show ?case
    unfolding upt by simp
qed

text \<open>
  C2: when the asset generation of a caption sequence of length \<open>N\<close> returns (no
  service, fetch or write raised), it returns \<open>N\<close> image paths, \<open>N\<close> audio paths and
  the captions it was given, and for every index \<open>i\<close> below \<open>N\<close> the image path is
  \<^verbatim>\<open>scene_i.png\<close> and the audio path \<^verbatim>\<open>scene_i.mp3\<close>, joined to the scratch directory.
\<close>

theorem generate_assets_aligned:
  assumes "generate_assets plat g temp_dir scenes wd
             = (Inr (image_files, audio_files, subtitles), wd')"
  shows "length image_files = length scenes \<and> length audio_files = length scenes \<and>
         subtitles = scenes \<and>
         (\<forall>i < length scenes.
            image_files ! i = path_join temp_dir (''scene_'' @ str_nat i @ ''.png'') \<and>
            audio_files ! i = path_join temp_dir (''scene_'' @ str_nat i @ ''.mp3''))"
  using scenes_loop_result [OF assms [unfolded generate_assets_def]] by simp

lemma demo_assets_run:
  "fst (generate_assets demo_platform demo_globals ''/tmp/run'' [''a'', [], ''b''] empty_world)
     = Inr ([''/tmp/run/scene_0.png'', ''/tmp/run/scene_1.png'', ''/tmp/run/scene_2.png''],
            [''/tmp/run/scene_0.mp3'', ''/tmp/run/scene_1.mp3'', ''/tmp/run/scene_2.mp3''],
            [''a'', [], ''b''])"
  by (simp add: generate_assets_def scene_assets_def demo_platform_def demo_globals_def
      empty_world_def log_request_def write_file_def path_join_def str_nat.simps digit_char_def
      Let_def)

theorem generate_assets_aligned_witness:
  "\<exists>image_files audio_files subtitles wd'.
     generate_assets demo_platform demo_globals ''/tmp/run'' [''a'', [], ''b''] empty_world
       = (Inr (image_files, audio_files, subtitles), wd') \<and>
     length image_files = 3 \<and> length audio_files = 3 \<and> subtitles = [''a'', [], ''b''] \<and>
     image_files ! 2 = ''/tmp/run/scene_2.png'' \<and> audio_files ! 2 = ''/tmp/run/scene_2.mp3''"
proof -
  obtain r wd' where run:
    "generate_assets demo_platform demo_globals ''/tmp/run'' [''a'', [], ''b''] empty_world = (r, wd')"
    by (cases "generate_assets demo_platform demo_globals ''/tmp/run'' [''a'', [], ''b''] empty_world")
  with demo_assets_run obtain image_files audio_files subtitles where
    r: "r = Inr (image_files, audio_files, subtitles)" by simp
  from generate_assets_aligned [OF run [unfolded r]] run r show ?thesis
    by (simp add: path_join_def str_nat.simps digit_char_def)
qed

text \<open>
  C8, as stated: whenever the completion request succeeds, the segmentation returns
  at least one caption. A completion that succeeds with a first choice whose content
  is null, or with no choice at all, returns no caption: line 35 raises.
\<close>

theorem null_content_counterexample:
  "chat_completions_create null_content_platform (openai_api_key demo_globals) (reqs empty_world)
     (chat_request ''Story.'') = Inr [None] \<and>
   generate_scene_images_and_audio null_content_platform demo_globals ''Story.'' ''/tmp/run''
     empty_world
     = (Inl (AttributeError ''NoneType object has no attribute strip''),
        log_request (chat_request ''Story.'') empty_world) \<and>
   chat_completions_create no_choice_platform (openai_api_key demo_globals) (reqs empty_world)
     (chat_request ''Story.'') = Inr [] \<and>
   generate_scene_images_and_audio no_choice_platform demo_globals ''Story.'' ''/tmp/run''
     empty_world
     = (Inl (IndexError ''list index out of range''),
        log_request (chat_request ''Story.'') empty_world)"
  by (simp add: generate_scene_images_and_audio_def null_content_platform_def
      no_choice_platform_def demo_platform_def Let_def)

text \<open>
  C8, amended: whenever the completion request succeeds with a first choice whose
  content is text, the segmentation of that content is a non-empty sequence of
  captions, whatever the story text and the content are (a split has at least one
  piece, and the fallback has exactly one), and the function goes on to generate the
  assets of exactly these captions. So whenever the function returns, the captions
  returned are the segmentation of the response content, at least one.
\<close>

theorem segment_scenes_nonempty:
  "segment_scenes prompt_text content \<noteq> [] \<and>
   (chat_completions_create plat (openai_api_key g) (reqs wd) (chat_request prompt_text)
      = Inr (Some content # others) \<longrightarrow>
    segment_scenes prompt_text content \<noteq> [] \<and>
    generate_scene_images_and_audio plat g prompt_text temp_dir wd
      = generate_assets plat g temp_dir (segment_scenes prompt_text content)
          (log_request (chat_request prompt_text) wd)) \<and>
   (generate_scene_images_and_audio plat g prompt_text temp_dir wd
      = (Inr (image_files, audio_files, subtitles), wd') \<longrightarrow>
    subtitles \<noteq> [] \<and>
    (\<exists>content' others.
       chat_completions_create plat (openai_api_key g) (reqs wd) (chat_request prompt_text)
         = Inr (Some content' # others) \<and>
       subtitles = segment_scenes prompt_text content'))"
proof (intro conjI impI)
  show ne: "\<And>c. segment_scenes prompt_text c \<noteq> []"
    by (simp add: segment_scenes_def Let_def str_split_not_Nil)
  then show "segment_scenes prompt_text content \<noteq> []" .
  {
    assume "chat_completions_create plat (openai_api_key g) (reqs wd) (chat_request prompt_text)
      = Inr (Some content # others)"
    then show "generate_scene_images_and_audio plat g prompt_text temp_dir wd
      = generate_assets plat g temp_dir (segment_scenes prompt_text content)
          (log_request (chat_request prompt_text) wd)"
      by (simp add: generate_scene_images_and_audio_def Let_def)
  }
  assume run: "generate_scene_images_and_audio plat g prompt_text temp_dir wd
      = (Inr (image_files, audio_files, subtitles), wd')"
  then obtain content' others where
    chat: "chat_completions_create plat (openai_api_key g) (reqs wd) (chat_request prompt_text)
             = Inr (Some content' # others)" and
    loop: "scenes_loop plat g temp_dir 0 (segment_scenes prompt_text content') ([], [], [])
             (log_request (chat_request prompt_text) wd)
             = (Inr (image_files, audio_files, subtitles), wd')"
    by (auto simp: generate_scene_images_and_audio_def generate_assets_def Let_def
        split: sum.splits list.splits option.splits)
  from scenes_loop_result [OF loop] have subs: "subtitles = segment_scenes prompt_text content'"
    by simp
  with ne show "subtitles \<noteq> []" by simp
  from chat subs show "\<exists>content' others.
       chat_completions_create plat (openai_api_key g) (reqs wd) (chat_request prompt_text)
         = Inr (Some content' # others) \<and>
       subtitles = segment_scenes prompt_text content'" by blast
qed

theorem segment_scenes_nonempty_witness:
  "segment_scenes ''Story.'' ''a\<newline>\<newline>b'' \<noteq> [] \<and>
   generate_scene_images_and_audio demo_platform demo_globals ''Story.'' ''/tmp/run'' empty_world
     = generate_assets demo_platform demo_globals ''/tmp/run''
         (segment_scenes ''Story.'' ''a\<newline>\<newline>b'')
         (log_request (chat_request ''Story.'') empty_world) \<and>
   (\<exists>image_files audio_files subtitles wd'.
      generate_scene_images_and_audio demo_platform demo_globals ''Story.'' ''/tmp/run'' empty_world
        = (Inr (image_files, audio_files, subtitles), wd') \<and>
      subtitles = [''a'', [], ''b''] \<and> subtitles \<noteq> [])"
proof -
  let ?run = "generate_scene_images_and_audio demo_platform demo_globals ''Story.'' ''/tmp/run''
                empty_world"
  have chat: "chat_completions_create demo_platform (openai_api_key demo_globals) (reqs empty_world)
                (chat_request ''Story.'') = Inr (Some ''a\<newline>\<newline>b'' # [])"
    by (simp add: demo_platform_def)
  have "fst ?run =
          Inr ([''/tmp/run/scene_0.png'', ''/tmp/run/scene_1.png'', ''/tmp/run/scene_2.png''],
               [''/tmp/run/scene_0.mp3'', ''/tmp/run/scene_1.mp3'', ''/tmp/run/scene_2.mp3''],
               [''a'', [], ''b''])"
    by (simp add: generate_scene_images_and_audio_def generate_assets_def scene_assets_def
        segment_scenes_def str_strip_def isspace_def newline_def log_request_def write_file_def
        path_join_def str_nat.simps digit_char_def
        demo_platform_def demo_globals_def empty_world_def Let_def)
  then have run: "?run =
          (Inr ([''/tmp/run/scene_0.png'', ''/tmp/run/scene_1.png'', ''/tmp/run/scene_2.png''],
                [''/tmp/run/scene_0.mp3'', ''/tmp/run/scene_1.mp3'', ''/tmp/run/scene_2.mp3''],
                [''a'', [], ''b'']), snd ?run)"
    by (simp add: prod_eq_iff)
  from segment_scenes_nonempty [THEN conjunct1, of "''Story.''" "''a\<newline>\<newline>b''"]
    segment_scenes_nonempty [THEN conjunct2, THEN conjunct1, THEN mp, OF chat, THEN conjunct2]
    segment_scenes_nonempty [THEN conjunct2, THEN conjunct2, THEN mp, OF run] run
  show ?thesis by blast
qed

section \<open>Properties of the assembly that hold on every platform\<close>



lemmas demo_defs = demo_platform_def demo_globals_def demo_world_def empty_world_def demo_inputs_def
lemmas video_defs = create_video_def final_clip_of_def add_music_def scene_clip_def AudioFileClip_def
  ImageClip_def TextClip_def read_file_def CompositeVideoClip_def concatenate_videoclips_def
  set_duration_def set_position_def set_audio_def write_videofile_def path_exists_def
  ends_duration_def present_audio_def timed_audio_def mix_audio_def a_end_def audio_set_start_def
  audio_set_duration_def CompositeAudioClip_def volumex_def audio_clip_loop_def


text \<open>
  An assembly with two images, one audio file and three captions succeeds: it is the
  assembly of the first scene alone.
\<close>

theorem unequal_lengths_example:
  "fst (create_video demo_platform [''/tmp/run/scene_0.png'', ''/tmp/run/scene_1.png'']
          [''/tmp/run/scene_0.mp3''] [''a'', ''b'', ''c'']
          ''/tmp/run/output_video.mp4'' None demo_world) = Inr ()"
  by (simp add: video_defs demo_defs Let_def)

section \<open>A blank line of the response\<close>

text \<open>
  C10: there is a response of three lines, the middle one blank, for which the
  segmentation returns an empty caption; the asset generation then sends the empty
  string as the prompt of an image generation and as the text of a speech generation.
\<close>

theorem blank_line_scene_requests:
  "segment_scenes ''Story.'' ''a\<newline>\<newline>b'' = [''a'', [], ''b''] \<and>
   reqs (snd (generate_scene_images_and_audio demo_platform demo_globals ''Story.'' ''/tmp/run''
                empty_world)) =
     [chat_request ''Story.'',
      ImageGeneration ''dall-e-3'' ''a'' ''512x512'' 1, HttpGet (Some ''https://img.example/1''),
      SpeechGeneration ''a'' (Some ''v1'') ''eleven_multilingual_v1'',
      ImageGeneration ''dall-e-3'' [] ''512x512'' 1, HttpGet (Some ''https://img.example/1''),
      SpeechGeneration [] (Some ''v1'') ''eleven_multilingual_v1'',
      ImageGeneration ''dall-e-3'' ''b'' ''512x512'' 1, HttpGet (Some ''https://img.example/1''),
      SpeechGeneration ''b'' (Some ''v1'') ''eleven_multilingual_v1'']"
  by (simp add: generate_scene_images_and_audio_def generate_assets_def scene_assets_def
      segment_scenes_def str_strip_def isspace_def newline_def log_request_def write_file_def
      demo_defs Let_def)

section \<open>Properties of the run\<close>





lemma create_video_ui_reqs:
  "create_video plat imgs auds subs out music wd = (r, wd') \<Longrightarrow> ui wd' = ui wd \<and> reqs wd' = reqs wd"
  by (auto simp: create_video_def write_videofile_def split: sum.splits option.splits)



























lemmas gen_defs = generate_scene_images_and_audio_def generate_assets_def scene_assets_def
  segment_scenes_def str_strip_def isspace_def newline_def log_request_def write_file_def
  path_join_def str_nat.simps digit_char_def chat_request_def
lemmas run_defs = run_block_def try_except_def try_body_def save_music_def st_info_def st_error_def
  st_success_def st_video_def rmtree_def



section \<open>Properties of the startup check\<close>

lemma scene_assets_total:
  assumes img: "\<And>h rq. \<exists>u us. images_generate plat (openai_api_key g) h rq = Inr (u # us)"
    and get: "\<And>h u. \<exists>d. requests_get plat h u = Inr d"
    and tts: "\<And>h rq. \<exists>d. generate plat (elevenlabs_api_key g) h rq = Inr d"
    and wr: "\<And>files path. open_wb plat files path = None"
  shows "\<exists>a b wd'. scene_assets plat g temp_dir i scene_text wd = (Inr (a, b), wd')"
proof -
  let ?rq = "ImageGeneration ''dall-e-3'' scene_text ''512x512'' 1"
  let ?tts = "SpeechGeneration scene_text (voice_id g) ''eleven_multilingual_v1''"
  obtain u us where 1: "images_generate plat (openai_api_key g) (reqs wd) ?rq = Inr (u # us)"
    using img by blast
  obtain d where 2: "requests_get plat (reqs (log_request ?rq wd)) u = Inr d"
    using get by blast
  obtain ad where 3:
    "generate plat (elevenlabs_api_key g) (reqs (log_request (HttpGet u) (log_request ?rq wd))) ?tts
       = Inr ad"
    using tts by blast
  show ?thesis
    using 1 2 3 by (simp add: scene_assets_def Let_def write_file_def wr log_request_def)
qed

lemma scenes_loop_total:
  assumes img: "\<And>h rq. \<exists>u us. images_generate plat (openai_api_key g) h rq = Inr (u # us)"
    and get: "\<And>h u. \<exists>d. requests_get plat h u = Inr d"
    and tts: "\<And>h rq. \<exists>d. generate plat (elevenlabs_api_key g) h rq = Inr d"
    and wr: "\<And>files path. open_wb plat files path = None"
  shows "\<exists>r wd'. scenes_loop plat g temp_dir i scenes (imgs, auds, subs) wd = (Inr r, wd')"
proof (induction scenes arbitrary: i imgs auds subs wd)
  case Nil
  then show ?case by simp
next
  case (Cons s rest)
  from scene_assets_total [OF img get tts wr] obtain a b wd1 where
    "scene_assets plat g temp_dir i s wd = (Inr (a, b), wd1)" by blast
  with Cons.IH show ?case by simp
qed

text \<open>
  C6: if any of the three secrets is missing, one execution of the script ends at the
  startup check with the error element, whatever the inputs are: no request is made
  and no run starts. If the three are present and non-empty, the script goes on to
  the run with the globals read once. Inside the run nothing checks a credential
  again: whatever the globals hold, the generation returns when the services, the
  fetch and the file writes succeed, so only a service can fail on a credential.
\<close>

theorem configuration_checked_at_startup:
  "(secrets ''OPENAI_API_KEY'' = None \<or> secrets ''ELEVENLABS_API_KEY'' = None \<or>
    secrets ''VOICE_ID'' = None \<longrightarrow>
    script plat secrets inp wd =
      (None, st_error
         ''Please add OPENAI_API_KEY, ELEVENLABS_API_KEY, and VOICE_ID to your Streamlit secrets.''
         wd))
   \<and>
   (\<not> falsy (secrets ''OPENAI_API_KEY'') \<and> \<not> falsy (secrets ''ELEVENLABS_API_KEY'') \<and>
    \<not> falsy (secrets ''VOICE_ID'') \<longrightarrow>
    script plat secrets inp wd =
      (if button inp \<and> str_strip (text_input inp) \<noteq> []
       then run_block plat
              \<lparr>openai_api_key = secrets ''OPENAI_API_KEY'',
               elevenlabs_api_key = secrets ''ELEVENLABS_API_KEY'',
               voice_id = secrets ''VOICE_ID''\<rparr> inp wd
       else (None, wd)))
   \<and>
   ((\<exists>content others.
        chat_completions_create plat (openai_api_key g) (reqs wd) (chat_request prompt_text)
          = Inr (Some content # others)) \<and>
    (\<forall>h rq. \<exists>u us. images_generate plat (openai_api_key g) h rq = Inr (u # us)) \<and>
    (\<forall>h u. \<exists>d. requests_get plat h u = Inr d) \<and>
    (\<forall>h rq. \<exists>d. generate plat (elevenlabs_api_key g) h rq = Inr d) \<and>
    (\<forall>files path. open_wb plat files path = None) \<longrightarrow>
    (\<exists>r wd'. generate_scene_images_and_audio plat g prompt_text temp_dir wd = (Inr r, wd')))"
proof (intro conjI impI)
  assume "secrets ''OPENAI_API_KEY'' = None \<or> secrets ''ELEVENLABS_API_KEY'' = None \<or>
    secrets ''VOICE_ID'' = None"
  then show "script plat secrets inp wd =
      (None, st_error
         ''Please add OPENAI_API_KEY, ELEVENLABS_API_KEY, and VOICE_ID to your Streamlit secrets.''
         wd)"
    by (auto simp: script_def falsy_def Let_def)
next
  assume "\<not> falsy (secrets ''OPENAI_API_KEY'') \<and> \<not> falsy (secrets ''ELEVENLABS_API_KEY'') \<and>
    \<not> falsy (secrets ''VOICE_ID'')"
  then show "script plat secrets inp wd =
      (if button inp \<and> str_strip (text_input inp) \<noteq> []
       then run_block plat
              \<lparr>openai_api_key = secrets ''OPENAI_API_KEY'',
               elevenlabs_api_key = secrets ''ELEVENLABS_API_KEY'',
               voice_id = secrets ''VOICE_ID''\<rparr> inp wd
       else (None, wd))"
    by (simp add: script_def Let_def)
next
  assume h: "(\<exists>content others.
        chat_completions_create plat (openai_api_key g) (reqs wd) (chat_request prompt_text)
          = Inr (Some content # others)) \<and>
    (\<forall>h rq. \<exists>u us. images_generate plat (openai_api_key g) h rq = Inr (u # us)) \<and>
    (\<forall>h u. \<exists>d. requests_get plat h u = Inr d) \<and>
    (\<forall>h rq. \<exists>d. generate plat (elevenlabs_api_key g) h rq = Inr d) \<and>
    (\<forall>files path. open_wb plat files path = None)"
  then obtain content others where chat:
    "chat_completions_create plat (openai_api_key g) (reqs wd) (chat_request prompt_text)
       = Inr (Some content # others)" by blast
  from h have img: "\<And>h rq. \<exists>u us. images_generate plat (openai_api_key g) h rq = Inr (u # us)"
    and get: "\<And>h u. \<exists>d. requests_get plat h u = Inr d"
    and tts: "\<And>h rq. \<exists>d. generate plat (elevenlabs_api_key g) h rq = Inr d"
    and wr: "\<And>files path. open_wb plat files path = None" by blast+
  from scenes_loop_total [OF img get tts wr]
  show "\<exists>r wd'. generate_scene_images_and_audio plat g prompt_text temp_dir wd = (Inr r, wd')"
    using chat by (simp add: generate_scene_images_and_audio_def generate_assets_def Let_def)
qed

theorem configuration_checked_at_startup_witness:
  "script demo_platform no_voice_secrets demo_inputs empty_world =
     (None, st_error
        ''Please add OPENAI_API_KEY, ELEVENLABS_API_KEY, and VOICE_ID to your Streamlit secrets.''
        empty_world) \<and>
   script demo_platform demo_secrets demo_inputs empty_world =
     run_block demo_platform demo_globals demo_inputs empty_world \<and>
   (\<exists>r wd'. generate_scene_images_and_audio demo_platform no_globals ''Story.'' ''/tmp/run''
               empty_world = (Inr r, wd'))"
proof -
  have a: "no_voice_secrets ''OPENAI_API_KEY'' = None \<or> no_voice_secrets ''ELEVENLABS_API_KEY'' = None \<or>
    no_voice_secrets ''VOICE_ID'' = None"
    by (simp add: no_voice_secrets_def)
  have b: "\<not> falsy (demo_secrets ''OPENAI_API_KEY'') \<and> \<not> falsy (demo_secrets ''ELEVENLABS_API_KEY'') \<and>
    \<not> falsy (demo_secrets ''VOICE_ID'')"
    by (simp add: demo_secrets_def falsy_def)
  have c: "(\<exists>content others.
        chat_completions_create demo_platform (openai_api_key no_globals) (reqs empty_world)
          (chat_request ''Story.'') = Inr (Some content # others)) \<and>
    (\<forall>h rq. \<exists>u us. images_generate demo_platform (openai_api_key no_globals) h rq = Inr (u # us)) \<and>
    (\<forall>h u. \<exists>d. requests_get demo_platform h u = Inr d) \<and>
    (\<forall>h rq. \<exists>d. generate demo_platform (elevenlabs_api_key no_globals) h rq = Inr d) \<and>
    (\<forall>files path. open_wb demo_platform files path = None)"
    by (simp add: demo_platform_def)
  have 1: "script demo_platform no_voice_secrets demo_inputs empty_world =
     (None, st_error
        ''Please add OPENAI_API_KEY, ELEVENLABS_API_KEY, and VOICE_ID to your Streamlit secrets.''
        empty_world)"
    using configuration_checked_at_startup [THEN conjunct1, THEN mp, OF a] .
  have 2: "script demo_platform demo_secrets demo_inputs empty_world =
     run_block demo_platform demo_globals demo_inputs empty_world"
  proof -
    have pressed: "button demo_inputs \<and> str_strip (text_input demo_inputs) \<noteq> []"
      by (simp add: demo_inputs_def str_strip_def isspace_def)
    have g: "\<lparr>openai_api_key = demo_secrets ''OPENAI_API_KEY'',
              elevenlabs_api_key = demo_secrets ''ELEVENLABS_API_KEY'',
              voice_id = demo_secrets ''VOICE_ID''\<rparr> = demo_globals"
      by (simp add: demo_secrets_def demo_globals_def)
    show ?thesis
      using configuration_checked_at_startup [THEN conjunct2, THEN conjunct1, THEN mp, OF b,
          of demo_platform demo_inputs empty_world]
      by (simp only: pressed g simp_thms if_True)
  qed
  have 3: "\<exists>r wd'. generate_scene_images_and_audio demo_platform no_globals ''Story.'' ''/tmp/run''
               empty_world = (Inr r, wd')"
    using configuration_checked_at_startup [THEN conjunct2, THEN conjunct2, THEN mp, OF c] .
  from 1 2 3 show ?thesis by (intro conjI)
qed

section \<open>Properties of the assembled clip\<close>

lemma scene_clip_value:
  assumes "read_file files audio_path = Inr adata" "audio_decode plat adata = Inr d"
    "read_file files img = Inr idata" "image_decode plat idata = Inr (iw, ih)"
    "caption_render plat subtitle (real iw * (9 / 10)) = Inr sz"
  shows "scene_clip plat files img audio_path subtitle
           = Inr (scene_value img audio_path subtitle (real iw) d)"
  using assms
  by (cases sz)
     (simp add: scene_clip_def AudioFileClip_def ImageClip_def TextClip_def set_duration_def
       set_position_def CompositeVideoClip_def set_audio_def ends_duration_def present_audio_def
       scene_value_def scene_frames_def narration_def Let_def)

lemma clips_loop_values:
  assumes "\<forall>x \<in> set xs. scene_clip plat files (fi x) (fa x) (fs' x) = Inr (sv x)"
  shows "clips_loop plat files (map (\<lambda>x. (fi x, fa x, fs' x)) xs) clips = Inr (clips @ map sv xs)"
  using assms by (induction xs arbitrary: clips) simp_all

lemma starts_from_not_Nil: "starts_from t ds \<noteq> []"
  by (cases ds) simp_all

lemma last_starts_from: "last (starts_from t ds) = t + sum_list ds"
  by (induction ds arbitrary: t) (simp_all add: add.assoc starts_from_not_Nil)

lemma those_map_Some: "those (map Some xs) = Some xs"
  by (induction xs) simp_all

lemma timed_audio_back_to_back:
  assumes "\<forall>x \<in> set xs. audio (sv x) = Some (narration (fa x) 0 (fd x))"
  shows "timed_audio (zip (map sv xs) (starts_from t (map fd xs)))
           = back_to_back t (map (\<lambda>x. (fa x, fd x)) xs)"
  using assms
  by (induction xs arbitrary: t)
     (simp_all add: timed_audio_def audio_set_start_def narration_def)

lemma concatenate_values:
  assumes aud: "\<forall>x \<in> set xs. audio (sv x) = Some (narration (fa x) 0 (fd x))"
    and dur: "\<forall>x \<in> set xs. duration (sv x) = Some (fd x)"
    and ne: "xs \<noteq> []"
  shows "concatenate_videoclips (map sv xs) =
           Inr \<lparr>frames = Cuts (map (\<lambda>x. (frames (sv x), Some (fd x))) xs),
                clip_w = list_max (map (\<lambda>x. clip_w (sv x)) xs),
                duration = Some (sum_list (map fd xs)),
                audio = Some (mix_audio (back_to_back 0 (map (\<lambda>x. (fa x, fd x)) xs)))\<rparr>"
proof -
  have durs: "map duration (map sv xs) = map Some (map fd xs)"
    using dur by (induction xs) simp_all
  have cuts: "map (\<lambda>c. (frames c, duration c)) (map sv xs) = map (\<lambda>x. (frames (sv x), Some (fd x))) xs"
    using dur by (induction xs) simp_all
  have b2b: "back_to_back 0 (map (\<lambda>x. (fa x, fd x)) xs) \<noteq> []"
    using ne by (cases xs) simp_all
  show ?thesis
    unfolding concatenate_videoclips_def durs those_map_Some
    using ne b2b dur
    by (simp add: Let_def last_starts_from timed_audio_back_to_back [OF aud] cuts comp_def)
qed


lemma zip3_nth:
  assumes "length xs = n" "length ys = n" "length zs = n"
  shows "zip xs (zip ys zs) = map (\<lambda>i. (xs ! i, ys ! i, zs ! i)) [0..<n]"
  using assms by (intro nth_equalityI) simp_all

lemma zip_nth:
  assumes "length xs = n" "length ys = n"
  shows "map (\<lambda>i. (xs ! i, ys ! i)) [0..<n] = zip xs ys"
  using assms by (intro nth_equalityI) simp_all

lemma assembled:
  assumes len: "length image_files = n" "length audio_files = n" "length subtitles = n" "0 < n"
      "length ds = n" "length iws = n"
    and aud: "\<forall>i<n. \<exists>data. read_file files (audio_files ! i) = Inr data \<and>
                            audio_decode plat data = Inr (ds ! i)"
    and img: "\<forall>i<n. \<exists>data ih. read_file files (image_files ! i) = Inr data \<and>
                               image_decode plat data = Inr (iws ! i, ih)"
    and cap: "\<forall>i<n. \<exists>sz. caption_render plat (subtitles ! i) (real (iws ! i) * (9 / 10)) = Inr sz"
  shows "final_clip_of plat files image_files audio_files subtitles music_path =
           add_music plat files music_path
             (narrated_video image_files audio_files subtitles iws ds)"
proof -
  let ?sv = "\<lambda>i. scene_value (image_files ! i) (audio_files ! i) (subtitles ! i) (real (iws ! i)) (ds ! i)"
  have each: "\<forall>i \<in> set [0..<n]. scene_clip plat files (image_files ! i) (audio_files ! i) (subtitles ! i)
                 = Inr (?sv i)"
  proof
    fix i assume "i \<in> set [0..<n]"
    then have i: "i < n" by simp
    from aud i obtain adata where a: "read_file files (audio_files ! i) = Inr adata"
      "audio_decode plat adata = Inr (ds ! i)" by blast
    from img i obtain idata ih where b: "read_file files (image_files ! i) = Inr idata"
      "image_decode plat idata = Inr (iws ! i, ih)" by blast
    from cap i obtain sz where c:
      "caption_render plat (subtitles ! i) (real (iws ! i) * (9 / 10)) = Inr sz" by blast
    from scene_clip_value [OF a b c]
    show "scene_clip plat files (image_files ! i) (audio_files ! i) (subtitles ! i) = Inr (?sv i)" .
  qed
  have loop: "clips_loop plat files (zip image_files (zip audio_files subtitles)) []
                = Inr (map ?sv [0..<n])"
    unfolding zip3_nth [OF len(1-3)]
    using clips_loop_values [OF each, of "[]"] by simp
  have ne: "[0..<n] \<noteq> []" using len(4) by simp
  have cat: "concatenate_videoclips (map ?sv [0..<n]) =
               Inr (narrated_video image_files audio_files subtitles iws ds)"
  proof -
    have 1: "\<forall>i \<in> set [0..<n]. audio (?sv i) = Some (narration (audio_files ! i) 0 (ds ! i))"
      by (simp add: scene_value_def)
    have 2: "\<forall>i \<in> set [0..<n]. duration (?sv i) = Some (ds ! i)"
      by (simp add: scene_value_def)
    have ds: "map (\<lambda>i. ds ! i) [0..<n] = ds"
      unfolding len(5) [symmetric] by (rule map_nth)
    have ws: "map (\<lambda>i. clip_w (?sv i)) [0..<n] = map real iws"
      using len(6) by (intro nth_equalityI) (simp_all add: scene_value_def)
    have fr: "map (\<lambda>i. (frames (?sv i), Some (ds ! i))) [0..<n]
                = map (\<lambda>i. (scene_frames (image_files ! i) (subtitles ! i) (real (iws ! i)) (ds ! i),
                              Some (ds ! i))) [0..<length ds]"
      using len(5) by (simp add: scene_value_def)
    show ?thesis
      unfolding concatenate_values [OF 1 2 ne] narrated_video_def ds ws fr
        zip_nth [OF len(2) len(5)] by (rule refl)
  qed
  show ?thesis
    by (simp add: final_clip_of_def loop cat)
qed


lemma add_music_skipped:
  assumes "\<forall>p. music_path = Some p \<longrightarrow> p = [] \<or> \<not> path_exists files p"
  shows "add_music plat files music_path cat = Inr cat"
  using assms by (cases music_path) (auto simp: add_music_def)

lemma add_music_raises:
  assumes "path \<noteq> []" "path_exists files path" "AudioFileClip plat files path = Inr music0"
  shows "add_music plat files (Some path) cat
           = Inl (AttributeError ''AudioFileClip object has no attribute loop'')"
  using assms by (simp add: add_music_def audio_clip_loop_def)




text \<open>
  C3: for image paths, audio paths and captions of one length \<open>n > 0\<close>, whose audio
  files decode to the durations \<open>ds\<close>, whose images decode and whose captions render,
  when no music file is in use (no music path, an empty one, or nothing at the path),
  the output can be opened and the encoder succeeds: the assembly returns and writes
  the encoding of a clip that shows the scenes in ascending index order with hard
  cuts, scene \<open>i\<close> being its image under its caption for exactly the duration of its
  audio; the duration of the clip is the sum of the audio durations and its audio is
  the narrations one after another. Durations are real numbers; the clip is the
  composition that the program asks of the library.
\<close>

theorem assembled_video_duration:
  assumes len: "length image_files = n" "length audio_files = n" "length subtitles = n" "0 < n"
      "length ds = n" "length iws = n"
    and aud: "\<forall>i<n. \<exists>data. read_file (fs wd) (audio_files ! i) = Inr data \<and>
                            audio_decode plat data = Inr (ds ! i)"
    and img: "\<forall>i<n. \<exists>data ih. read_file (fs wd) (image_files ! i) = Inr data \<and>
                               image_decode plat data = Inr (iws ! i, ih)"
    and cap: "\<forall>i<n. \<exists>sz. caption_render plat (subtitles ! i) (real (iws ! i) * (9 / 10)) = Inr sz"
    and nomus: "\<forall>p. music_path = Some p \<longrightarrow> p = [] \<or> \<not> path_exists (fs wd) p"
    and wr: "open_wb plat (fs wd) output_path = None"
    and enc: "\<forall>clip. \<exists>data. video_encode plat clip 24 ''libx264'' ''aac'' = Inr data"
  shows "\<exists>final_clip data.
           final_clip_of plat (fs wd) image_files audio_files subtitles music_path = Inr final_clip \<and>
           video_encode plat final_clip 24 ''libx264'' ''aac'' = Inr data \<and>
           create_video plat image_files audio_files subtitles output_path music_path wd
             = (Inr (), wd\<lparr>fs := (fs wd)(output_path \<mapsto> File data)\<rparr>) \<and>
           frames final_clip =
             Cuts (map (\<lambda>i. (Layers [(Image (image_files ! i), Some (ds ! i)),
                                       (Positioned ''center'' ''bottom''
                                          (Caption (subtitles ! i) 24 ''white'' ''black'' ''caption''
                                             (real (iws ! i) * (9 / 10))), Some (ds ! i))],
                               Some (ds ! i))) [0..<n]) \<and>
           duration final_clip = Some (sum_list ds) \<and>
           audio final_clip = Some (mix_audio (back_to_back 0 (zip audio_files ds)))"
proof -
  let ?cat = "narrated_video image_files audio_files subtitles iws ds"
  have fin: "final_clip_of plat (fs wd) image_files audio_files subtitles music_path = Inr ?cat"
    using assembled [OF len aud img cap, of music_path] add_music_skipped [OF nomus, of plat ?cat]
    by simp
  from enc obtain data where data: "video_encode plat ?cat 24 ''libx264'' ''aac'' = Inr data"
    by blast
  have cv: "create_video plat image_files audio_files subtitles output_path music_path wd
             = (Inr (), wd\<lparr>fs := (fs wd)(output_path \<mapsto> File data)\<rparr>)"
    by (simp add: create_video_def fin write_videofile_def wr data)
  have "frames ?cat =
             Cuts (map (\<lambda>i. (Layers [(Image (image_files ! i), Some (ds ! i)),
                                       (Positioned ''center'' ''bottom''
                                          (Caption (subtitles ! i) 24 ''white'' ''black'' ''caption''
                                             (real (iws ! i) * (9 / 10))), Some (ds ! i))],
                               Some (ds ! i))) [0..<n])"
    and "duration ?cat = Some (sum_list ds)"
    and "audio ?cat = Some (mix_audio (back_to_back 0 (zip audio_files ds)))"
    using len(5) by (simp_all add: narrated_video_def scene_frames_def)
  with fin data cv show ?thesis by blast
qed

theorem assembled_video_duration_witness:
  "\<exists>final_clip.
     final_clip_of demo_platform (fs demo_world)
       [''/tmp/run/scene_0.png'', ''/tmp/run/scene_1.png'']
       [''/tmp/run/scene_0.mp3'', ''/tmp/run/scene_1.mp3''] [''a'', ''b''] None = Inr final_clip \<and>
     create_video demo_platform
       [''/tmp/run/scene_0.png'', ''/tmp/run/scene_1.png'']
       [''/tmp/run/scene_0.mp3'', ''/tmp/run/scene_1.mp3''] [''a'', ''b'']
       ''/tmp/run/output_video.mp4'' None demo_world
       = (Inr (), demo_world\<lparr>fs := (fs demo_world)(''/tmp/run/output_video.mp4'' \<mapsto> File ''MP4'')\<rparr>) \<and>
     frames final_clip =
       Cuts [(Layers [(Image ''/tmp/run/scene_0.png'', Some 2),
                      (Positioned ''center'' ''bottom''
                         (Caption ''a'' 24 ''white'' ''black'' ''caption'' (512 * (9 / 10))), Some 2)],
              Some 2),
             (Layers [(Image ''/tmp/run/scene_1.png'', Some 2),
                      (Positioned ''center'' ''bottom''
                         (Caption ''b'' 24 ''white'' ''black'' ''caption'' (512 * (9 / 10))), Some 2)],
              Some 2)] \<and>
     duration final_clip = Some 4 \<and>
     a_sound (the (audio final_clip)) =
       Mix [(0, Some 2, SoundFile ''/tmp/run/scene_0.mp3''),
            (2, Some 2, SoundFile ''/tmp/run/scene_1.mp3'')]"
proof -
  have "\<exists>final_clip data.
           final_clip_of demo_platform (fs demo_world)
             [''/tmp/run/scene_0.png'', ''/tmp/run/scene_1.png'']
             [''/tmp/run/scene_0.mp3'', ''/tmp/run/scene_1.mp3''] [''a'', ''b''] None = Inr final_clip \<and>
           video_encode demo_platform final_clip 24 ''libx264'' ''aac'' = Inr data \<and>
           create_video demo_platform
             [''/tmp/run/scene_0.png'', ''/tmp/run/scene_1.png'']
             [''/tmp/run/scene_0.mp3'', ''/tmp/run/scene_1.mp3''] [''a'', ''b'']
             ''/tmp/run/output_video.mp4'' None demo_world
             = (Inr (), demo_world\<lparr>fs := (fs demo_world)(''/tmp/run/output_video.mp4'' \<mapsto> File data)\<rparr>) \<and>
           frames final_clip =
             Cuts (map (\<lambda>i. (Layers [(Image ([''/tmp/run/scene_0.png'', ''/tmp/run/scene_1.png''] ! i),
                                        Some ([2, 2] ! i)),
                                       (Positioned ''center'' ''bottom''
                                          (Caption ([''a'', ''b''] ! i) 24 ''white'' ''black'' ''caption''
                                             (real ([512, 512] ! i) * (9 / 10))), Some ([2, 2] ! i))],
                               Some ([2, 2] ! i))) [0..<2]) \<and>
           duration final_clip = Some (sum_list [2, 2]) \<and>
           audio final_clip = Some (mix_audio (back_to_back 0
             (zip [''/tmp/run/scene_0.mp3'', ''/tmp/run/scene_1.mp3''] [2, 2])))"
    by (rule assembled_video_duration)
       (simp_all add: numeral_2_eq_2 All_less_Suc read_file_def demo_world_def
          demo_platform_def path_exists_def)
  then show ?thesis
    by (auto simp: demo_platform_def numeral_2_eq_2 mix_audio_def narration_def)
qed






section \<open>The music branch\<close>

text \<open>
  Whenever the clips of the scenes are built and a decodable music file exists at the
  music path, line 90 raises: the audio clip has no \<^verbatim>\<open>loop\<close>. Nothing is mixed and
  nothing is written.
\<close>

lemma music_branch_raises:
  assumes "final_clip_of plat (fs wd) image_files audio_files subtitles None = Inr cat"
    and "path \<noteq> []" "path_exists (fs wd) path"
    and "read_file (fs wd) path = Inr mdata" "audio_decode plat mdata = Inr md"
  shows "create_video plat image_files audio_files subtitles output_path (Some path) wd
           = (Inl (AttributeError ''AudioFileClip object has no attribute loop''), wd)"
proof -
  from assms(1) obtain clips where
    clips: "clips_loop plat (fs wd) (zip image_files (zip audio_files subtitles)) [] = Inr clips"
    and cat: "concatenate_videoclips clips = Inr cat"
    by (auto simp: final_clip_of_def add_music_def split: sum.splits)
  have "AudioFileClip plat (fs wd) path
          = Inr \<lparr>a_sound = SoundFile path, a_start = 0, a_duration = Some md\<rparr>"
    using assms(4,5) by (simp add: AudioFileClip_def)
  from add_music_raises [OF assms(2,3) this]
  show ?thesis
    by (simp add: create_video_def final_clip_of_def clips cat)
qed

text \<open>
  C4: the claim is that an existing music file is attenuated, looped to the duration
  of the video and mixed with the narration. On the example world with a music file
  that exists and decodes, the assembly without a music path returns, and the same
  assembly with the music path raises \<^verbatim>\<open>AttributeError\<close> at line 90 and leaves the
  world as it was; the run of the script with an uploaded music file ends with the
  error element and no video. The narration-only half of the claim holds: it is the
  last conjunct of the theorem of C3.
\<close>

theorem music_file_raises:
  "path_exists (fs music_world) ''/tmp/run/background_music.mp3'' \<and>
   AudioFileClip demo_platform (fs music_world) ''/tmp/run/background_music.mp3''
     = Inr \<lparr>a_sound = SoundFile ''/tmp/run/background_music.mp3'', a_start = 0,
            a_duration = Some 2\<rparr> \<and>
   fst (create_video demo_platform
     [''/tmp/run/scene_0.png'', ''/tmp/run/scene_1.png'']
     [''/tmp/run/scene_0.mp3'', ''/tmp/run/scene_1.mp3''] [''a'', ''b'']
     ''/tmp/run/output_video.mp4'' None music_world) = Inr () \<and>
   create_video demo_platform
     [''/tmp/run/scene_0.png'', ''/tmp/run/scene_1.png'']
     [''/tmp/run/scene_0.mp3'', ''/tmp/run/scene_1.mp3''] [''a'', ''b'']
     ''/tmp/run/output_video.mp4'' (Some ''/tmp/run/background_music.mp3'') music_world
     = (Inl (AttributeError ''AudioFileClip object has no attribute loop''), music_world) \<and>
   ui (snd (run_block demo_platform demo_globals music_inputs empty_world)) =
     [Info ''Generating scenes, images, and audio...'', Info ''Creating video...'',
      Error ''Error: AudioFileClip object has no attribute loop'']"
  by (simp add: video_defs gen_defs run_defs demo_defs music_world_def music_inputs_def Let_def)

end
